theory Spec2Isabelle
  imports Main "HOL-Library.Signed_Division"
begin

section \<open>Compile-time frame parameters of the panner (panner\_internal.h, lines 59--74)\<close>

text \<open>
  The header fixes the time-frequency layout with preprocessor macros. The only inputs
  are the two macros a build may define on the compiler command line: an
  example-specific \<^verbatim>\<open>PANNER_FRAME_SIZE\<close> and a global \<^verbatim>\<open>FRAME_SIZE\<close>. A build is
  the pair of optional integer values given to them (\<open>None\<close>: not defined).
\<close>

record build_flags =
  def_PANNER_FRAME_SIZE :: "int option"
  def_FRAME_SIZE :: "int option"

text \<open>
  \<^verbatim>\<open>#if !defined(PANNER_FRAME_SIZE)\<close>
  \<^verbatim>\<open># if defined(FRAME_SIZE)  # define PANNER_FRAME_SIZE ( FRAME_SIZE )\<close>
  \<^verbatim>\<open># else                    # define PANNER_FRAME_SIZE ( 128 )\<close>
\<close>

definition PANNER_FRAME_SIZE :: "build_flags \<Rightarrow> int" where
  "PANNER_FRAME_SIZE b =
     (case def_PANNER_FRAME_SIZE b of
        Some v \<Rightarrow> v
      | None \<Rightarrow> (case def_FRAME_SIZE b of Some g \<Rightarrow> g | None \<Rightarrow> 128))"

text \<open>\<^verbatim>\<open>#define HOP_SIZE ( 128 )\<close>\<close>

definition HOP_SIZE :: int where
  "HOP_SIZE = 128"

text \<open>\<^verbatim>\<open>#define HYBRID_BANDS ( HOP_SIZE + 5 )\<close>\<close>

definition HYBRID_BANDS :: int where
  "HYBRID_BANDS = HOP_SIZE + 5"

text \<open>
  \<^verbatim>\<open>#define TIME_SLOTS ( PANNER_FRAME_SIZE / HOP_SIZE )\<close>.
  C's integer division truncates towards zero, which is \<open>sdiv\<close>; dividing by 128 cannot
  overflow, so the integers are left unbounded.
\<close>

definition TIME_SLOTS :: "build_flags \<Rightarrow> int" where
  "TIME_SLOTS b = PANNER_FRAME_SIZE b sdiv HOP_SIZE"

text \<open>
  \<^verbatim>\<open>#if (PANNER_FRAME_SIZE % HOP_SIZE != 0)\<close>
  \<^verbatim>\<open># error "PANNER_FRAME_SIZE must be an integer multiple of HOP_SIZE"\<close>
  The remainder of C (and of the preprocessor) takes the sign of the dividend, which is
  \<open>smod\<close>. Preprocessing the header either stops at the \<^verbatim>\<open>#error\<close> directive or yields
  the shape of the band-domain buffers \<^verbatim>\<open>inputframeTF\<close> and \<^verbatim>\<open>outputframeTF\<close>
  (\<^verbatim>\<open>HYBRID_BANDS x channels x TIME_SLOTS\<close>): the number of bands and of time slots.
\<close>

datatype build_error = ErrorDirective string

definition panner_internal_h :: "build_flags \<Rightarrow> build_error + (int \<times> int)" where
  "panner_internal_h b =
     (if PANNER_FRAME_SIZE b smod HOP_SIZE \<noteq> 0
      then Inl (ErrorDirective ''PANNER_FRAME_SIZE must be an integer multiple of HOP_SIZE'')
      else Inr (HYBRID_BANDS, TIME_SLOTS b))"

section \<open>Frame size check and time slots\<close>

lemma smod_HOP_SIZE_iff: "k smod HOP_SIZE = 0 \<longleftrightarrow> HOP_SIZE dvd k"
proof -
  have "k smod 128 = 0 \<longleftrightarrow> \<bar>k\<bar> mod 128 = 0"
    by (auto simp: signed_modulo_int_def sgn_if)
  also have "\<dots> \<longleftrightarrow> 128 dvd \<bar>k\<bar>"
    by (simp add: dvd_eq_mod_eq_0)
  also have "\<dots> \<longleftrightarrow> 128 dvd k"
    by simp
  finally show ?thesis
    by (simp add: HOP_SIZE_def)
qed

lemma sdiv_HOP_SIZE_exact:
  assumes "k smod HOP_SIZE = 0"
  shows "k sdiv HOP_SIZE * HOP_SIZE = k"
  using sdiv_mult_smod_eq [of k HOP_SIZE] assms by simp

lemma sdiv_HOP_SIZE_pos:
  assumes "k smod HOP_SIZE = 0" and "0 < k"
  shows "1 \<le> k sdiv HOP_SIZE"
proof (rule ccontr)
  assume "\<not> 1 \<le> k sdiv HOP_SIZE"
  then have "k sdiv HOP_SIZE * HOP_SIZE \<le> 0"
    by (simp add: HOP_SIZE_def)
  with sdiv_HOP_SIZE_exact [OF assms(1)] assms(2) show False
    by simp
qed

text \<open>
  C9, as the header has it. The number of bands is 133 for every build. A frame size that
  is not a multiple of the hop size stops the build, and only such a frame size does. For
  a build that passes, the number of time slots times the hop size is the frame size, so
  a positive frame size gives at least one time slot. The check itself does not ask for a
  positive frame size.
\<close>

theorem time_slots_of_checked_frame_size:
  "(isl (panner_internal_h b) \<longleftrightarrow> \<not> HOP_SIZE dvd PANNER_FRAME_SIZE b) \<and>
   (panner_internal_h b = Inr (bands, slots) \<longrightarrow>
      bands = 133 \<and> slots = TIME_SLOTS b \<and>
      slots * HOP_SIZE = PANNER_FRAME_SIZE b \<and>
      (0 < PANNER_FRAME_SIZE b \<longrightarrow> 1 \<le> slots))"
proof (intro conjI impI)
  show "isl (panner_internal_h b) \<longleftrightarrow> \<not> HOP_SIZE dvd PANNER_FRAME_SIZE b"
    by (simp add: panner_internal_h_def smod_HOP_SIZE_iff)
next
  assume ok: "panner_internal_h b = Inr (bands, slots)"
  then have m: "PANNER_FRAME_SIZE b smod HOP_SIZE = 0"
    and bs: "bands = HYBRID_BANDS" and sl: "slots = TIME_SLOTS b"
    by (auto simp: panner_internal_h_def split: if_splits)
  show "bands = 133"
    by (simp add: bs HYBRID_BANDS_def HOP_SIZE_def)
  show "slots = TIME_SLOTS b"
    by (rule sl)
  show "slots * HOP_SIZE = PANNER_FRAME_SIZE b"
    unfolding sl TIME_SLOTS_def by (rule sdiv_HOP_SIZE_exact [OF m])
  show "1 \<le> slots" if "0 < PANNER_FRAME_SIZE b"
    unfolding sl TIME_SLOTS_def by (rule sdiv_HOP_SIZE_pos [OF m that])
qed

text \<open>
  The default build (neither macro defined) has a frame of 128 samples: it passes the
  check with 133 bands and one time slot.
\<close>

theorem time_slots_of_checked_frame_size_witness:
  "panner_internal_h \<lparr>def_PANNER_FRAME_SIZE = None, def_FRAME_SIZE = None\<rparr> = Inr (133, 1) \<and>
   0 < PANNER_FRAME_SIZE \<lparr>def_PANNER_FRAME_SIZE = None, def_FRAME_SIZE = None\<rparr> \<and>
   TIME_SLOTS \<lparr>def_PANNER_FRAME_SIZE = None, def_FRAME_SIZE = None\<rparr> = 1 \<and>
   1 * HOP_SIZE = PANNER_FRAME_SIZE \<lparr>def_PANNER_FRAME_SIZE = None, def_FRAME_SIZE = None\<rparr>"
  using time_slots_of_checked_frame_size
    [of "\<lparr>def_PANNER_FRAME_SIZE = None, def_FRAME_SIZE = None\<rparr>" 133 1]
  by (simp add: panner_internal_h_def PANNER_FRAME_SIZE_def HOP_SIZE_def HYBRID_BANDS_def
      TIME_SLOTS_def signed_divide_int_def signed_modulo_int_def)

text \<open>
  C9 as stated fails: a build with \<^verbatim>\<open>-DPANNER_FRAME_SIZE=0\<close> passes the multiple-of-hop
  check (0 is a multiple of 128) and has no time slot at all.
\<close>

theorem time_slots_zero_frame_size_counterexample:
  "panner_internal_h \<lparr>def_PANNER_FRAME_SIZE = Some 0, def_FRAME_SIZE = None\<rparr> = Inr (133, 0) \<and>
   \<not> 0 < TIME_SLOTS \<lparr>def_PANNER_FRAME_SIZE = Some 0, def_FRAME_SIZE = None\<rparr>"
  by (simp add: panner_internal_h_def PANNER_FRAME_SIZE_def HOP_SIZE_def HYBRID_BANDS_def
      TIME_SLOTS_def)

end
